theory Spec2Isabelle
  imports Main "HOL-Library.Sublist"
begin

section \<open>Python values and exceptions\<close>

text \<open>
  The scripts are Python 3. A Python \<open>str\<close> is modelled as a \<open>string\<close>; the model covers
  ASCII text (one \<open>char\<close> per code point). An exception that leaves a function is the
  \<open>Inl\<close> branch of a sum; the constructors are the Python exception classes the modelled
  code can raise.
\<close>

datatype error =
    IndexError
  | ValueError
  | KeyError
  | TypeError
  | AttributeError
  | UnboundLocalError
  | RuntimeError
  | FileNotFoundError
  | OSError
  | ConnectionError
  | NameError
  | ZeroDivisionError
  | HTTPError nat
  | CalledProcessError int

subsection \<open>\<open>str\<close> methods\<close>

definition lower_letters :: string where
  "lower_letters = ''abcdefghijklmnopqrstuvwxyz''"

definition upper_letters :: string where
  "upper_letters = ''ABCDEFGHIJKLMNOPQRSTUVWXYZ''"

definition upper_char :: "char \<Rightarrow> char" where
  "upper_char c =
     (case map_of (zip lower_letters upper_letters) c of Some u \<Rightarrow> u | None \<Rightarrow> c)"

definition lower_char :: "char \<Rightarrow> char" where
  "lower_char c =
     (case map_of (zip upper_letters lower_letters) c of Some l \<Rightarrow> l | None \<Rightarrow> c)"

text \<open>\<open>s.capitalize()\<close>: first character upper case, the rest lower case.\<close>

fun capitalize :: "string \<Rightarrow> string" where
  "capitalize [] = []"
| "capitalize (c # cs) = upper_char c # map lower_char cs"


text \<open>\<open>s.replace(old, new)\<close> for one-character \<open>old\<close> and \<open>new\<close>.\<close>

definition replace_char :: "char \<Rightarrow> char \<Rightarrow> string \<Rightarrow> string" where
  "replace_char old new s = map (\<lambda>c. if c = old then new else c) s"

text \<open>\<open>xs[i]\<close> for a non-negative index: out of range raises \<open>IndexError\<close>.\<close>

definition index :: "'a list \<Rightarrow> nat \<Rightarrow> error + 'a" where
  "index xs i = (if i < length xs then Inr (xs ! i) else Inl IndexError)"


text \<open>\<open>s[i:j]\<close> for non-negative \<open>i \<le> j\<close>; a slice never raises.\<close>

definition slice :: "'a list \<Rightarrow> nat \<Rightarrow> nat \<Rightarrow> 'a list" where
  "slice xs i j = take (j - i) (drop i xs)"

text \<open>
  White space as \<open>str.strip()\<close> and \<open>int()\<close> see it in the ASCII range: the characters
  9 to 13 and 28 to 32.
\<close>

definition is_space :: "char \<Rightarrow> bool" where
  "is_space c = (let n = (of_char c :: nat) in (9 \<le> n \<and> n \<le> 13) \<or> (28 \<le> n \<and> n \<le> 32))"

definition strip :: "string \<Rightarrow> string" where
  "strip s = rev (dropWhile is_space (rev (dropWhile is_space s)))"

definition is_digit :: "char \<Rightarrow> bool" where
  "is_digit c = (let n = (of_char c :: nat) in 48 \<le> n \<and> n \<le> 57)"

definition digit_val :: "char \<Rightarrow> nat" where
  "digit_val c = (of_char c :: nat) - 48"

text \<open>
  \<open>int(s)\<close> in base 10: surrounding white space is dropped, one sign is allowed, then
  decimal digits, where single underscores may stand between two digits. Anything else
  raises \<open>ValueError\<close>.
\<close>

fun digits_from :: "nat \<Rightarrow> string \<Rightarrow> nat option" where
  "digits_from acc [] = Some acc"
| "digits_from acc [c] = (if is_digit c then Some (10 * acc + digit_val c) else None)"
| "digits_from acc (c # d # ds) =
     (if is_digit c then digits_from (10 * acc + digit_val c) (d # ds)
      else if c = CHR ''_'' \<and> is_digit d then digits_from (10 * acc + digit_val d) ds
      else None)"

definition decimal :: "string \<Rightarrow> nat option" where
  "decimal s =
     (case s of
        [] \<Rightarrow> None
      | c # cs \<Rightarrow> if is_digit c then digits_from (digit_val c) cs else None)"

definition py_int :: "string \<Rightarrow> error + int" where
  "py_int s =
     (case strip s of
        [] \<Rightarrow> Inl ValueError
      | c # cs \<Rightarrow>
          if c = CHR ''-'' then
            (case decimal cs of None \<Rightarrow> Inl ValueError | Some n \<Rightarrow> Inr (- int n))
          else if c = CHR ''+'' then
            (case decimal cs of None \<Rightarrow> Inl ValueError | Some n \<Rightarrow> Inr (int n))
          else
            (case decimal (c # cs) of None \<Rightarrow> Inl ValueError | Some n \<Rightarrow> Inr (int n)))"


text \<open>\<open>s.startswith(p)\<close>.\<close>

definition startswith :: "string \<Rightarrow> string \<Rightarrow> bool" where
  "startswith s p = prefix p s"

text \<open>\<open>s.split(c)\<close> for a one-character separator: the result always has an element.\<close>

fun split_on :: "char \<Rightarrow> string \<Rightarrow> string list" where
  "split_on c [] = [[]]"
| "split_on c (x # xs) =
     (if x = c then [] # split_on c xs
      else (let r = split_on c xs in (x # hd r) # tl r))"

text \<open>\<open>sep.join(parts)\<close> on a list of strings.\<close>

fun join :: "string \<Rightarrow> string list \<Rightarrow> string" where
  "join sep [] = []"
| "join sep [x] = x"
| "join sep (x # y # ys) = x @ sep @ join sep (y # ys)"

section \<open>Display form of a build identifier\<close>

text \<open>
  \<open>format_buildID\<close> (build_installer.py). \<open>format1\<close> is the capitalised identifier with
  every hyphen replaced by a space. When the character at index 6 reads as the integer 0,
  the loop over \<open>range(len(build_id))\<close> copies every character of \<open>format1\<close> except the one
  at index 6. An identifier shorter than seven characters raises \<open>IndexError\<close>, a
  non-numeric character at index 6 raises \<open>ValueError\<close>.
\<close>

definition format_buildID :: "string \<Rightarrow> error + string" where
  "format_buildID build_id =
     (let format1 = replace_char CHR ''-'' CHR '' '' (capitalize build_id) in
      case index format1 6 of
        Inl e \<Rightarrow> Inl e
      | Inr c \<Rightarrow>
          (case py_int [c] of
             Inl e \<Rightarrow> Inl e
           | Inr n \<Rightarrow>
               let formatted_buildID =
                     (if n = 0
                      then foldl (\<lambda>acc i. if i \<noteq> 6 then acc @ [format1 ! i] else acc) []
                             [0 ..< length build_id]
                      else [])
               in Inr (if formatted_buildID = [] then format1 else formatted_buildID)))"

section \<open>The outside world\<close>

text \<open>
  The scripts read web pages, files and the calendar, and run external programs. What the
  outside answers is the environment \<open>env\<close>; what the scripts change is the \<open>world\<close>:
  the files, and the log of the requests sent, the programs run and the files touched, in
  the order in which they happened. Logging through \<open>logger\<close> is not modelled.
\<close>

text \<open>
  An HTML element as the scraper reads it: its tag name, its text and its \<open>href\<close>
  attribute when it has one.
\<close>

datatype tag = Tag (tag_name: string) (tag_text: string) (tag_href: "string option")

text \<open>
  A fetched catalog page after parsing: the HTTP status, the text of every \<open>ul\<close> element
  in document order, and every \<open>h3\<close> element in document order, given by its string and
  by the elements inside its next sibling in document order (\<open>None\<close> when the \<open>h3\<close> has
  no next sibling).
\<close>

record page =
  status_code :: nat
  uls :: "string list"
  h3s :: "(string \<times> tag list option) list"

text \<open>
  A streamed response: the status, the \<open>Content-Length\<close> header when present, the chunks
  that \<open>iter_content\<close> delivers, and the exception that ends the stream early, if any.
\<close>

record stream =
  stream_status :: nat
  content_length :: "string option"
  chunks :: "string list"
  stream_error :: "error option"

datatype node = File string | Dir

type_synonym filesystem = "string \<Rightarrow> node option"

text \<open>The steps whose bodies are not modelled; each is one event.\<close>

datatype step =
    InstallBundle string string string
  | InstallHosts string string string string
  | InstallLicense string
  | ExtractArchive string string

datatype event =
    Get string
  | Exec "string list"
  | Sleep nat
  | Remove string
  | Rmtree string
  | Write string
  | Run step

record world =
  files :: filesystem
  events :: "event list"

text \<open>
  A released calendar event, by its \<open>summary\<close> when it has one, and the stored
  credentials, by the three attributes the script reads.
\<close>

datatype calendar_event = Event (summary: "string option")

datatype credentials = Credentials (valid: bool) (expired: bool) (refresh_token: bool)

record env =
  sys_platform :: string
  get_page :: "string \<Rightarrow> error + page"
  get_stream :: "string \<Rightarrow> error + stream"
  run_process :: "string list \<Rightarrow> filesystem \<Rightarrow> error + (int \<times> string \<times> filesystem)"
  run_step :: "step \<Rightarrow> filesystem \<Rightarrow> error option \<times> filesystem"
  inside :: "string \<Rightarrow> string \<Rightarrow> bool"
  path_join :: "string \<Rightarrow> string \<Rightarrow> string"
  home_dir :: string
  userprofile :: "string option"
  token :: "credentials option"
  credentials_json :: bool
  events_list :: "int \<Rightarrow> int \<Rightarrow> error + calendar_event list"
  now :: int

definition log :: "event \<Rightarrow> world \<Rightarrow> world" where
  "log e w = w\<lparr>events := events w @ [e]\<rparr>"

definition BASE_URL :: string where
  "BASE_URL = ''http://build-download.schrodinger.com''"

text \<open>\<open>resp.raise_for_status()\<close>: a status from 400 to 599 raises \<open>HTTPError\<close>.\<close>

definition raise_for_status :: "nat \<Rightarrow> error option" where
  "raise_for_status st = (if 400 \<le> st \<and> st < 600 then Some (HTTPError st) else None)"

section \<open>Bundle Resolver\<close>







section \<open>Build Locator\<close>








section \<open>Release oracle\<close>

text \<open>
  \<open>get_current_release\<close> (build_installer.py). The credential steps raise
  \<open>FileNotFoundError\<close> when no usable token is stored and \<open>credentials.json\<close> is
  missing; refreshing and the login flow are taken to succeed. The calendar is asked for
  the events between now and fifteen weeks from now. The value \<open>False\<close> that the function
  returns for an empty result is \<open>NoRelease\<close>. Times are in seconds.
\<close>

datatype release_value = Release string | NoRelease

definition weeks :: "int \<Rightarrow> int" where
  "weeks n = n * 7 * 24 * 3600"

definition authorize :: "env \<Rightarrow> error option" where
  "authorize env =
     (case token env of
        None \<Rightarrow> if credentials_json env then None else Some FileNotFoundError
      | Some creds \<Rightarrow>
          if valid creds then None
          else if expired creds \<and> refresh_token creds then None
          else if credentials_json env then None
          else Some FileNotFoundError)"

definition get_current_release :: "env \<Rightarrow> error + release_value" where
  "get_current_release env =
     (case authorize env of
        Some e \<Rightarrow> Inl e
      | None \<Rightarrow>
          (case events_list env (now env) (now env + weeks 15) of
             Inl e \<Rightarrow> Inl e
           | Inr items \<Rightarrow>
               (case index items 0 of
                  Inl e \<Rightarrow> Inl e
                | Inr first \<Rightarrow>
                    (case summary first of
                       None \<Rightarrow> Inl KeyError
                     | Some s \<Rightarrow>
                         let current_release = ''20'' @ slice s 0 4
                         in if length items = 0 then Inr NoRelease
                            else Inr (Release current_release)))))"

text \<open>
  \<open>get_current_release\<close> of get_release.py: the same steps without the \<open>20\<close> prefix. It
  prints the release; the result is the printed text. Its empty-result branch calls
  \<open>logger\<close>, a name that file does not define.
\<close>

definition get_release_get_current_release :: "env \<Rightarrow> error + string" where
  "get_release_get_current_release env =
     (case authorize env of
        Some e \<Rightarrow> Inl e
      | None \<Rightarrow>
          (case events_list env (now env) (now env + weeks 15) of
             Inl e \<Rightarrow> Inl e
           | Inr items \<Rightarrow>
               (case index items 0 of
                  Inl e \<Rightarrow> Inl e
                | Inr first \<Rightarrow>
                    (case summary first of
                       None \<Rightarrow> Inl KeyError
                     | Some s \<Rightarrow>
                         let current_release = slice s 0 4
                         in if length items = 0 then Inl NameError
                            else Inr current_release))))"

section \<open>Files\<close>

definition exists_path :: "world \<Rightarrow> string \<Rightarrow> bool" where
  "exists_path w p = (files w p \<noteq> None)"


text \<open>\<open>os.remove(p)\<close>: removes a file, raises on a directory and on a missing path.\<close>

definition os_remove :: "string \<Rightarrow> world \<Rightarrow> error option \<times> world" where
  "os_remove p w =
     (let w' = log (Remove p) w
      in case files w p of
           None \<Rightarrow> (Some FileNotFoundError, w')
         | Some Dir \<Rightarrow> (Some OSError, w')
         | Some (File c) \<Rightarrow> (None, w'\<lparr>files := (files w)(p := None)\<rparr>))"



text \<open>
  \<open>subprocess.check_call\<close> and \<open>check_output\<close>: the program runs, and a non-zero return
  code raises \<open>CalledProcessError\<close>. The result is the captured output.
\<close>

definition check_output :: "env \<Rightarrow> string list \<Rightarrow> world \<Rightarrow> (error + string) \<times> world" where
  "check_output env cmd w =
     (let w' = log (Exec cmd) w
      in case run_process env cmd (files w) of
           Inl e \<Rightarrow> (Inl e, w')
         | Inr (returncode, output, fs) \<Rightarrow>
             if returncode \<noteq> 0 then (Inl (CalledProcessError returncode), w'\<lparr>files := fs\<rparr>)
             else (Inr output, w'\<lparr>files := fs\<rparr>))"

definition check_call :: "env \<Rightarrow> string list \<Rightarrow> world \<Rightarrow> error option \<times> world" where
  "check_call env cmd w =
     (case check_output env cmd w of
        (Inl e, w') \<Rightarrow> (Some e, w')
      | (Inr output, w') \<Rightarrow> (None, w'))"


section \<open>Download Stage\<close>

text \<open>
  \<open>download_file\<close> (build_installer.py). An existing target is removed first. Then the
  request is sent and its status checked, the \<open>Content-Length\<close> header is read as an
  integer, the target is opened for writing and the non-empty chunks are appended. The
  progress percentage divides by the total size, which is zero exactly when the header
  reads 0. Opening the target is taken to succeed.
\<close>

fun write_chunks :: "int \<Rightarrow> string list \<Rightarrow> string \<Rightarrow> error option \<times> string" where
  "write_chunks total_size [] content = (None, content)"
| "write_chunks total_size (chunk # rest) content =
     (if chunk = [] then write_chunks total_size rest content
      else if total_size = 0 then (Some ZeroDivisionError, content)
      else write_chunks total_size rest (content @ chunk))"

definition download_body :: "stream \<Rightarrow> string \<Rightarrow> world \<Rightarrow> error option \<times> world" where
  "download_body resp target w =
     (case raise_for_status (stream_status resp) of
        Some e \<Rightarrow> (Some e, w)
      | None \<Rightarrow>
          (case content_length resp of
             None \<Rightarrow> (Some KeyError, w)
           | Some len \<Rightarrow>
               (case py_int len of
                  Inl e \<Rightarrow> (Some e, w)
                | Inr total_size \<Rightarrow>
                    let w' = log (Write target) w;
                        written = write_chunks total_size (chunks resp) []
                    in (case fst written of
                          Some e \<Rightarrow> (Some e, w'\<lparr>files := (files w)(target \<mapsto> File (snd written))\<rparr>)
                        | None \<Rightarrow>
                            (stream_error resp,
                             w'\<lparr>files := (files w)(target \<mapsto> File (snd written))\<rparr>)))))"

definition download_file :: "env \<Rightarrow> string \<Rightarrow> string \<Rightarrow> world \<Rightarrow> error option \<times> world" where
  "download_file env url target w =
     (case (if exists_path w target then os_remove target w else (None, w)) of
        (Some e, w1) \<Rightarrow> (Some e, w1)
      | (None, w1) \<Rightarrow>
          (let w2 = log (Get url) w1
           in case get_stream env url of
                Inl e \<Rightarrow> (Some e, w2)
              | Inr resp \<Rightarrow> download_body resp target w2))"

section \<open>Local installation\<close>




section \<open>The workflow\<close>

text \<open>
  The three installation steps that \<open>main\<close> calls last. Their bodies (extraction, the
  platform installer, the hosts file, the license stub) are not modelled: each is one
  event, and the environment says whether it raises and what it leaves on disk.
\<close>

definition perform :: "env \<Rightarrow> step \<Rightarrow> world \<Rightarrow> error option \<times> world" where
  "perform env st w =
     (let r = run_step env st (files w)
      in (fst r, (log (Run st) w)\<lparr>files := snd r\<rparr>))"






section \<open>Disk-image extraction\<close>

text \<open>
  The \<open>re.search\<close> of \<open>mount_dmg\<close>: the leftmost place in the output where
  \<open>/Volumes/dmg.\<close> is followed by at least one word character (letter, digit or
  underscore), with as many word characters as follow.
\<close>

definition is_word_char :: "char \<Rightarrow> bool" where
  "is_word_char c =
     (is_digit c \<or> c = CHR ''_'' \<or> c \<in> set lower_letters \<or> c \<in> set upper_letters)"

fun search_mount_point :: "string \<Rightarrow> string option" where
  "search_mount_point [] = None"
| "search_mount_point (c # cs) =
     (if prefix ''/Volumes/dmg.'' (c # cs)
         \<and> takeWhile is_word_char (drop 13 (c # cs)) \<noteq> []
      then Some (''/Volumes/dmg.'' @ takeWhile is_word_char (drop 13 (c # cs)))
      else search_mount_point cs)"

text \<open>\<open>os.path.basename\<close> and the root part of \<open>os.path.splitext\<close>, as on MacOS.\<close>

definition basename :: "string \<Rightarrow> string" where
  "basename p = last (split_on CHR ''/'' p)"

definition splitext_root :: "string \<Rightarrow> string" where
  "splitext_root name =
     (let ext = takeWhile (\<lambda>c. c \<noteq> CHR ''.'') (rev name);
          rest = drop (length ext) (rev name)
      in if rest = [] then name
         else (let root = rev (tl rest)
               in if list_all (\<lambda>c. c = CHR ''.'') root then name else root))"

text \<open>
  \<open>mount_dmg\<close> is a context manager: the part before \<open>yield\<close> mounts the image and
  gives the mount point, the \<open>finally\<close> part detaches it.
\<close>

definition attach_cmd :: "string \<Rightarrow> string list" where
  "attach_cmd dmg_path =
     [''hdiutil'', ''attach'', ''-mountrandom'', ''/Volumes'', ''-nobrowse'', dmg_path]"

definition detach_cmd :: "string \<Rightarrow> string list" where
  "detach_cmd mount_point = [''hdiutil'', ''detach'', ''-force'', mount_point]"

definition mount_dmg_enter :: "env \<Rightarrow> string \<Rightarrow> world \<Rightarrow> (error + string) \<times> world" where
  "mount_dmg_enter env dmg_path w =
     (if \<not> startswith (sys_platform env) ''darwin'' then (Inl RuntimeError, w)
      else
        (case check_output env (attach_cmd dmg_path) w of
           (Inl e, w') \<Rightarrow> (Inl e, w')
         | (Inr output, w') \<Rightarrow>
             (case search_mount_point output of
                None \<Rightarrow> (Inl RuntimeError, w')
              | Some mount_point \<Rightarrow> (Inr mount_point, w'))))"

definition mount_dmg_exit :: "env \<Rightarrow> string \<Rightarrow> world \<Rightarrow> error option \<times> world" where
  "mount_dmg_exit env mount_point w = check_call env (detach_cmd mount_point) w"

text \<open>
  \<open>with mount_dmg(dmg_path) as mount_point: body\<close>. When entering raises, the body does
  not run. Otherwise the body runs, and then the \<open>finally\<close> part, whether the body raised
  or not; an exception of the \<open>finally\<close> part replaces the body's.
\<close>

definition with_mount_dmg ::
  "env \<Rightarrow> string \<Rightarrow> (string \<Rightarrow> world \<Rightarrow> error option \<times> world) \<Rightarrow> world
     \<Rightarrow> error option \<times> world" where
  "with_mount_dmg env dmg_path body w =
     (case mount_dmg_enter env dmg_path w of
        (Inl e, w1) \<Rightarrow> (Some e, w1)
      | (Inr mount_point, w1) \<Rightarrow>
          (let r = body mount_point w1;
               x = mount_dmg_exit env mount_point (snd r)
           in case fst x of
                Some e \<Rightarrow> (Some e, snd x)
              | None \<Rightarrow> (fst r, snd x)))"

definition xar_cmd :: "env \<Rightarrow> string \<Rightarrow> string \<Rightarrow> string \<Rightarrow> string list" where
  "xar_cmd env bundle_path destination mount_point =
     [''xar'', ''-C'', destination, ''-xvf'',
      path_join env mount_point (splitext_root (basename bundle_path) @ ''.pkg'')]"

text \<open>
  \<open>extract_bundle\<close>. The zip and tar branches, with the move of the extracted files
  that follows them, are one step of the environment; the disk-image branch is modelled
  in full.
\<close>

definition extract_bundle :: "env \<Rightarrow> string \<Rightarrow> string \<Rightarrow> world \<Rightarrow> error option \<times> world" where
  "extract_bundle env bundle_path destination w =
     (if startswith (sys_platform env) ''win32'' \<or> startswith (sys_platform env) ''linux''
      then perform env (ExtractArchive bundle_path destination) w
      else if startswith (sys_platform env) ''darwin''
      then with_mount_dmg env bundle_path
             (\<lambda>mount_point. check_call env (xar_cmd env bundle_path destination mount_point)) w
      else (Some RuntimeError, w))"

section \<open>An example catalog\<close>

text \<open>
  A small build site for the concrete checks below. Release \<open>2024-2\<close> lists its builds in
  ascending order; \<open>build-050\<close> has no academic section, \<open>build-049\<close> has an academic Linux
  bundle, \<open>build-048\<close> has an academic section with a Windows bundle only. Release
  \<open>2024-3\<close> lists its builds in mixed order. Release \<open>2024-4\<close> has two builds and no
  bundles, and release \<open>2024-1\<close> lists no builds.
\<close>

definition listing_page :: "string list \<Rightarrow> page" where
  "listing_page builds =
     \<lparr>status_code = 200, uls = [''Home'', join [CHR 0x0A] builds], h3s = []\<rparr>"

definition build_page_of :: "(string \<times> tag list option) list \<Rightarrow> page" where
  "build_page_of sections = \<lparr>status_code = 200, uls = [], h3s = sections\<rparr>"

definition general_links :: "tag list" where
  "general_links =
     [Tag ''a'' ''MacOSX with KNIME'' (Some ''/files/Suites_MacOSX_KNIME.dmg''),
      Tag ''a'' ''MacOSX'' (Some ''/files/Suites_MacOSX.dmg''),
      Tag ''a'' ''Linux-x86_64'' (Some ''/files/Suites_Linux-x86_64.tar''),
      Tag ''a'' ''Windows-x64'' (Some ''/files/Suites_Windows-x64.zip'')]"

definition academic_links :: "tag list" where
  "academic_links =
     [Tag ''a'' ''Linux-x86_64 Academic'' (Some ''/files/Academic_Linux-x86_64.tar''),
      Tag ''a'' ''Windows-x64 Academic'' (Some ''/files/Academic_Windows-x64.zip'')]"

definition example_pages :: "(string \<times> page) list" where
  "example_pages =
     [(BASE_URL @ ''/NB/2024-2'', listing_page [''build-048'', ''build-049'', ''build-050'']),
      (BASE_URL @ ''/NB/2024-2/build-050'',
         build_page_of [(''General Installers'', Some general_links)]),
      (BASE_URL @ ''/NB/2024-2/build-049'',
         build_page_of [(''Academic Installers'', Some academic_links),
                        (''General Installers'', Some general_links)]),
      (BASE_URL @ ''/NB/2024-2/build-048'',
         build_page_of [(''Academic Installers'', Some (drop 1 academic_links)),
                        (''General Installers'', Some (take 1 general_links))]),
      (BASE_URL @ ''/NB/2024-3'', listing_page [''build-002'', ''build-003'', ''build-001'']),
      (BASE_URL @ ''/NB/2024-3/build-002'', build_page_of []),
      (BASE_URL @ ''/NB/2024-3/build-003'',
         build_page_of [(''Academic Installers'', Some academic_links)]),
      (BASE_URL @ ''/NB/2024-3/build-001'',
         build_page_of [(''Academic Installers'', Some academic_links)]),
      (BASE_URL @ ''/NB/2024-4'', listing_page [''build-010'', ''build-011'']),
      (BASE_URL @ ''/NB/2024-4/build-010'', build_page_of []),
      (BASE_URL @ ''/NB/2024-4/build-011'', build_page_of []),
      (BASE_URL @ ''/NB/2024-1'', listing_page [])]"

definition example_site :: "string \<Rightarrow> error + page" where
  "example_site url =
     (case map_of example_pages url of None \<Rightarrow> Inl ConnectionError | Some pg \<Rightarrow> Inr pg)"

definition example_stream :: "string \<Rightarrow> error + stream" where
  "example_stream url =
     (if url = BASE_URL @ ''/NB/2024-2/build-049/Academic_Linux-x86_64.tar''
      then Inr \<lparr>stream_status = 200, content_length = Some ''7'',
                chunks = [''tar'', [], ''ball''], stream_error = None\<rparr>
      else Inr \<lparr>stream_status = 404, content_length = None, chunks = [],
                stream_error = None\<rparr>)"

definition example_env :: env where
  "example_env =
     \<lparr>sys_platform = ''linux'',
      get_page = example_site,
      get_stream = example_stream,
      run_process = (\<lambda>cmd fs. Inr (0, [], fs)),
      run_step = (\<lambda>st fs. (None, fs)),
      inside = (\<lambda>d p. prefix (d @ ''/'') p),
      path_join = (\<lambda>a b. a @ ''/'' @ b),
      home_dir = ''/home/user'',
      userprofile = None,
      token = Some (Credentials True False False),
      credentials_json = False,
      events_list = (\<lambda>time_min time_max. Inr []),
      now = 0\<rparr>"

definition empty_world :: world where
  "empty_world = \<lparr>files = (\<lambda>p. None), events = []\<rparr>"

text \<open>
  A MacOS machine on which mounting a disk image succeeds and every other program exits
  with code 1, and a world that holds an old download.
\<close>

definition attach_output :: string where
  "attach_output = ''/dev/disk4s1 Apple_HFS /Volumes/dmg.AbC123'' @ [CHR 0x0A]"

definition mac_process :: "string list \<Rightarrow> filesystem \<Rightarrow> error + (int \<times> string \<times> filesystem)" where
  "mac_process cmd fs =
     (if take 2 cmd = [''hdiutil'', ''attach'']
      then Inr (0, attach_output, fs)
      else if take 2 cmd = [''hdiutil'', ''detach''] then Inr (0, [], fs)
      else Inr (1, [], fs))"

definition mac_env :: env where
  "mac_env = example_env\<lparr>sys_platform := ''darwin'', run_process := mac_process\<rparr>"

definition old_download_world :: world where
  "old_download_world =
     \<lparr>files = (\<lambda>p. None)(''/home/user/Downloads/Suites.tar'' \<mapsto> File ''old''),
      events = []\<rparr>"



section \<open>Properties\<close>

subsection \<open>String helpers\<close>

lemma lower_char_digit: "is_digit c \<Longrightarrow> lower_char c = c"
proof -
  assume d: "is_digit c"
  have "c \<notin> set upper_letters"
  proof
    assume "c \<in> set upper_letters"
    then have "65 \<le> (of_char c :: nat)"
      by (auto simp: upper_letters_def)
    with d show False by (simp add: is_digit_def Let_def)
  qed
  then have "map_of (zip upper_letters lower_letters) c = None"
    by (simp add: map_of_eq_None_iff upper_letters_def lower_letters_def)
  then show ?thesis by (simp add: lower_char_def)
qed

lemma digit_not_hyphen: "is_digit c \<Longrightarrow> c \<noteq> CHR ''-''"
  by (auto simp: is_digit_def)

lemma digit_not_space: "is_digit c \<Longrightarrow> \<not> is_space c"
  by (auto simp: is_digit_def is_space_def Let_def)

lemma py_int_digit: "is_digit c \<Longrightarrow> py_int [c] = Inr (int (digit_val c))"
  by (simp add: py_int_def strip_def digit_not_space decimal_def)
     (auto simp: is_digit_def)

lemma digit_val_zero: "is_digit c \<Longrightarrow> digit_val c = 0 \<longleftrightarrow> c = CHR ''0''"
proof -
  assume d: "is_digit c"
  show ?thesis
  proof
    assume "digit_val c = 0"
    with d have "(of_char c :: nat) = of_char CHR ''0''"
      by (simp add: is_digit_def digit_val_def Let_def)
    then show "c = CHR ''0''" by (simp only: of_char_eq_iff)
  next
    assume "c = CHR ''0''"
    then show "digit_val c = 0" by (simp add: digit_val_def)
  qed
qed

lemma skip_index_6:
  "6 < length xs \<Longrightarrow>
   foldl (\<lambda>acc i. if i \<noteq> 6 then acc @ [xs ! i] else acc) [] [0 ..< length xs]
     = take 6 xs @ drop 7 xs"
proof -
  have gen: "foldl (\<lambda>acc i. if i \<noteq> 6 then acc @ [xs ! i] else acc) a [m ..< n]
               = a @ map (\<lambda>i. xs ! i) (filter (\<lambda>i. i \<noteq> 6) [m ..< n])" for a m n
    by (induction n arbitrary: a) auto
  assume len: "6 < length xs"
  have s1: "[0 ..< length xs] = [0 ..< 6] @ [6 ..< length xs]"
    using len upt_add_eq_append[of 0 6 "length xs - 6"] by simp
  have s2: "[6 ..< length xs] = 6 # [7 ..< length xs]"
    using len by (simp add: upt_conv_Cons)
  have t: "take 6 [0 ..< length xs] = [0 ..< 6]"
    using len by simp
  have d: "drop 7 [0 ..< length xs] = [7 ..< length xs]"
    by simp
  have f1: "filter (\<lambda>i. i \<noteq> 6) [0 ..< 6] = [0 ..< (6::nat)]"
    by (rule filter_True) auto
  have f2: "filter (\<lambda>i. i \<noteq> 6) [7 ..< length xs] = [7 ..< length xs]"
    by (rule filter_True) auto
  have "filter (\<lambda>i. i \<noteq> 6) [0 ..< length xs] = [0 ..< 6] @ [7 ..< length xs]"
    unfolding s1 s2 by (simp only: filter_append filter.simps f1 f2) simp
  then have "map (\<lambda>i. xs ! i) (filter (\<lambda>i. i \<noteq> 6) [0 ..< length xs])
               = take 6 (map (\<lambda>i. xs ! i) [0 ..< length xs])
                 @ drop 7 (map (\<lambda>i. xs ! i) [0 ..< length xs])"
    by (simp only: take_map drop_map t d map_append)
  then show ?thesis
    unfolding gen by (simp only: map_nth append_Nil)
qed

lemma capitalize_build:
  "list_all is_digit ds \<Longrightarrow> capitalize (''build-'' @ ds) = ''Build-'' @ ds"
proof -
  assume "list_all is_digit ds"
  then have "map lower_char ds = ds"
    by (induction ds) (simp_all add: lower_char_digit)
  then show ?thesis
    by (simp add: upper_char_def lower_char_def lower_letters_def upper_letters_def)
qed

lemma replace_hyphen_build:
  assumes "list_all is_digit ds"
  shows "replace_char CHR ''-'' CHR '' '' (''Build-'' @ ds) = ''Build '' @ ds"
proof -
  from assms have "map (\<lambda>c. if c = CHR ''-'' then CHR '' '' else c) ds = ds"
    by (induction ds) (simp_all add: digit_not_hyphen)
  then show ?thesis
    by (simp add: replace_char_def)
qed

subsection \<open>Display form\<close>

text \<open>
  C3, as the code has it. For an identifier \<open>build-\<close> followed by decimal digits, the
  display form is \<open>Build\<close>, a space, and the digits, with the first digit removed when
  it is \<open>0\<close>. Exactly one leading zero is removed: \<open>build-003\<close> gives \<open>Build 03\<close>,
  \<open>build-042\<close> gives \<open>Build 42\<close>, \<open>build-142\<close> gives \<open>Build 142\<close>.
\<close>

theorem format_buildID_digits:
  assumes "is_digit d" and "list_all is_digit ds"
  shows "format_buildID (''build-'' @ d # ds)
           = Inr (''Build '' @ (if d = CHR ''0'' then ds else d # ds))"
proof -
  let ?f1 = "''Build '' @ d # ds"
  have all: "list_all is_digit (d # ds)"
    using assms by simp
  have f1: "replace_char CHR ''-'' CHR '' '' (capitalize (''build-'' @ d # ds)) = ?f1"
    by (simp only: capitalize_build [OF all] replace_hyphen_build [OF all])
  have ix: "index ?f1 6 = Inr d"
    by (simp add: index_def)
  have len: "length (''build-'' @ d # ds) = length ?f1"
    by simp
  have loop: "foldl (\<lambda>acc i. if i \<noteq> 6 then acc @ [?f1 ! i] else acc) [] [0 ..< length ?f1]
                = ''Build '' @ ds"
    by (subst skip_index_6) simp_all
  show ?thesis
    unfolding format_buildID_def f1 Let_def ix len loop
    using assms(1) by (simp add: py_int_digit digit_val_zero)
qed

theorem format_buildID_digits_witness:
  "is_digit CHR ''0'' \<and> list_all is_digit ''42'' \<and>
   format_buildID ''build-042'' = Inr ''Build 42''"
  using format_buildID_digits [of "CHR ''0''" "''42''"]
  by (simp add: is_digit_def)

text \<open>
  C3, as the specification states it, fails at its own example: \<open>build-003\<close> is rendered
  \<open>Build 03\<close>, not \<open>Build 3\<close>.
\<close>

theorem format_buildID_003_counterexample:
  "format_buildID ''build-003'' = Inr ''Build 03'' \<and>
   format_buildID ''build-003'' \<noteq> Inr ''Build 3''"
  by code_simp

subsection \<open>Bundle Resolver\<close>











subsection \<open>Release oracle\<close>

text \<open>
  C5. The claim is that a lookahead window without a release-target event gives the
  reported value for "no release". Both copies of \<open>get_current_release\<close> read
  \<open>items[0]\<close> before they test for an empty result, so at an empty calendar answer they
  raise \<open>IndexError\<close> and the branch that returns \<open>False\<close> is never reached.
\<close>

theorem get_current_release_empty_calendar:
  "get_current_release example_env = Inl IndexError
   \<and> get_release_get_current_release example_env = Inl IndexError"
  by (simp add: get_current_release_def get_release_get_current_release_def authorize_def
      example_env_def index_def)

subsection \<open>Download Stage\<close>

lemma os_remove_file:
  "files w p = Some (File c) \<Longrightarrow>
   os_remove p w = (None, w\<lparr>files := (files w)(p := None), events := events w @ [Remove p]\<rparr>)"
  by (simp add: os_remove_def log_def Let_def)

text \<open>
  C10. When a file exists at the target and the response has a status that
  \<open>raise_for_status\<close> rejects, \<open>download_file\<close> raises that error after having removed the
  old file, the removal coming before the request, and nothing is written: no file is at
  the target afterwards.
\<close>

theorem download_file_error_status:
  assumes "files w target = Some (File c)"
    and "get_stream env url = Inr resp"
    and "raise_for_status (stream_status resp) = Some e"
  shows "download_file env url target w
           = (Some e, w\<lparr>files := (files w)(target := None),
                         events := events w @ [Remove target, Get url]\<rparr>)"
  using assms
  by (simp add: download_file_def exists_path_def os_remove_file download_body_def log_def)

theorem download_file_error_status_witness:
  "download_file example_env ''http://build-download.schrodinger.com/NB/2024-2/build-049/Suites.tar''
     ''/home/user/Downloads/Suites.tar'' old_download_world
     = (Some (HTTPError 404),
        \<lparr>files = (\<lambda>p. None),
         events = [Remove ''/home/user/Downloads/Suites.tar'',
                   Get ''http://build-download.schrodinger.com/NB/2024-2/build-049/Suites.tar'']\<rparr>)"
proof -
  have f: "files old_download_world ''/home/user/Downloads/Suites.tar'' = Some (File ''old'')"
    by (simp add: old_download_world_def)
  have g: "get_stream example_env
             ''http://build-download.schrodinger.com/NB/2024-2/build-049/Suites.tar''
           = Inr \<lparr>stream_status = 404, content_length = None, chunks = [],
                  stream_error = None\<rparr>"
    by (simp add: example_env_def example_stream_def BASE_URL_def)
  have r: "raise_for_status (stream_status \<lparr>stream_status = 404, content_length = None,
             chunks = [], stream_error = None\<rparr>) = Some (HTTPError 404)"
    by (simp add: raise_for_status_def)
  show ?thesis
    using download_file_error_status [OF f g r]
    by (simp add: old_download_world_def)
qed

subsection \<open>Disk-image extraction\<close>

lemma check_output_events:
  "events (snd (check_output env cmd w)) = events w @ [Exec cmd]"
  by (simp add: check_output_def log_def Let_def split: sum.splits prod.splits)

lemma check_call_events:
  "events (snd (check_call env cmd w)) = events w @ [Exec cmd]"
  using check_output_events [of env cmd w]
  by (cases "check_output env cmd w") (auto simp: check_call_def split: sum.splits)

text \<open>
  C8. On MacOS, once the image is mounted, the detach command is run after the extraction
  command on every exit of the \<open>with\<close> block: the events of \<open>extract_bundle\<close> end with
  the extraction and then the detach, whether the extraction raised or not. When the
  extraction raises, \<open>extract_bundle\<close> raises too, and it raises the extraction's exception
  when the detach itself succeeds.
\<close>

theorem extract_bundle_unmounts:
  assumes "startswith (sys_platform env) ''darwin''"
    and "mount_dmg_enter env bundle_path w = (Inr mount_point, w1)"
  shows "events (snd (extract_bundle env bundle_path destination w))
           = events w1 @ [Exec (xar_cmd env bundle_path destination mount_point),
                          Exec (detach_cmd mount_point)]
       \<and> (fst (check_call env (xar_cmd env bundle_path destination mount_point) w1) = Some e
          \<longrightarrow> fst (extract_bundle env bundle_path destination w) \<noteq> None)
       \<and> (fst (check_call env (xar_cmd env bundle_path destination mount_point) w1) = Some e
          \<and> fst (mount_dmg_exit env mount_point
                   (snd (check_call env (xar_cmd env bundle_path destination mount_point) w1)))
              = None
          \<longrightarrow> fst (extract_bundle env bundle_path destination w) = Some e)"
proof -
  let ?xar = "xar_cmd env bundle_path destination mount_point"
  let ?r = "check_call env ?xar w1"
  let ?x = "mount_dmg_exit env mount_point (snd ?r)"
  have not_other: "\<not> startswith (sys_platform env) ''win32''"
                  "\<not> startswith (sys_platform env) ''linux''"
    using assms(1) by (auto simp: startswith_def prefix_def)
  have ex: "extract_bundle env bundle_path destination w
              = (case fst ?x of Some e' \<Rightarrow> (Some e', snd ?x) | None \<Rightarrow> (fst ?r, snd ?x))"
    using assms not_other by (simp add: extract_bundle_def with_mount_dmg_def Let_def)
  have ev: "events (snd ?x) = events w1 @ [Exec ?xar, Exec (detach_cmd mount_point)]"
    by (simp add: mount_dmg_exit_def check_call_events)
  show ?thesis
    unfolding ex using ev by (auto split: option.splits)
qed

lemmas mac_defs = mac_env_def example_env_def mac_process_def empty_world_def

theorem extract_bundle_unmounts_witness:
  "events (snd (extract_bundle mac_env ''/Users/u/Downloads/Suites_MacOSX.dmg'' ''/opt/tmp''
                  empty_world))
     = [Exec (attach_cmd ''/Users/u/Downloads/Suites_MacOSX.dmg''),
        Exec [''xar'', ''-C'', ''/opt/tmp'', ''-xvf'', ''/Volumes/dmg.AbC123/Suites_MacOSX.pkg''],
        Exec [''hdiutil'', ''detach'', ''-force'', ''/Volumes/dmg.AbC123'']]
   \<and> fst (extract_bundle mac_env ''/Users/u/Downloads/Suites_MacOSX.dmg'' ''/opt/tmp''
            empty_world) = Some (CalledProcessError 1)"
proof -
  let ?dmg = "''/Users/u/Downloads/Suites_MacOSX.dmg''"
  let ?w1 = "\<lparr>files = (\<lambda>p. None), events = [Exec (attach_cmd ?dmg)]\<rparr>"
  let ?xar = "[''xar'', ''-C'', ''/opt/tmp'', ''-xvf'', ''/Volumes/dmg.AbC123/Suites_MacOSX.pkg'']"
  have darwin: "startswith (sys_platform mac_env) ''darwin''"
    by (simp add: mac_defs startswith_def)
  have found: "search_mount_point attach_output = Some ''/Volumes/dmg.AbC123''"
    by code_simp
  have out: "check_output mac_env (attach_cmd ?dmg) empty_world = (Inr attach_output, ?w1)"
    by (simp add: check_output_def mac_defs log_def attach_cmd_def)
  have enter: "mount_dmg_enter mac_env ?dmg empty_world = (Inr ''/Volumes/dmg.AbC123'', ?w1)"
    by (simp add: mount_dmg_enter_def darwin out found)
  have cmd: "xar_cmd mac_env ?dmg ''/opt/tmp'' ''/Volumes/dmg.AbC123'' = ?xar"
    by code_simp
  have xar: "check_call mac_env ?xar ?w1
               = (Some (CalledProcessError 1),
                  \<lparr>files = (\<lambda>p. None), events = [Exec (attach_cmd ?dmg), Exec ?xar]\<rparr>)"
    by (simp add: check_call_def check_output_def mac_defs log_def)
  have detach: "fst (mount_dmg_exit mac_env ''/Volumes/dmg.AbC123''
                  \<lparr>files = (\<lambda>p. None), events = [Exec (attach_cmd ?dmg), Exec ?xar]\<rparr>) = None"
    by (simp add: mount_dmg_exit_def check_call_def check_output_def mac_defs log_def
        detach_cmd_def)
  show ?thesis
    using extract_bundle_unmounts [OF darwin enter, of "''/opt/tmp''" "CalledProcessError 1"]
          xar detach
    by (simp add: cmd detach_cmd_def)
qed

subsection \<open>Local installation\<close>












subsection \<open>Build Locator\<close>



















end
